theory Spec2Isabelle
  imports Main
begin

section \<open>JavaScript values\<close>

text \<open>
  The request body (parsed by \<^verbatim>\<open>express.json\<close>), the payload handed to the
  upstream model and the upstream reply are all plain JavaScript data. A number is
  represented by its rendering \<^verbatim>\<open>String(n)\<close>, the only thing \<^verbatim>\<open>server.js\<close> observes
  of a number besides its truthiness (\<^verbatim>\<open>0\<close> and \<^verbatim>\<open>-0\<close> both render as \<^verbatim>\<open>0\<close>).
  An object is the list of its own properties; a key occurs once, as in the object
  \<^verbatim>\<open>JSON.parse\<close> builds. Characters of a string stand for its code units; the only
  character the program looks for is the comma.
\<close>

datatype json =
    JUndefined
  | JNull
  | JBool bool
  | JNum string
  | JStr string
  | JArr "json list"
  | JObj "(string \<times> json) list"

text \<open>An exception: the name of its class and its \<^verbatim>\<open>message\<close>.\<close>

datatype js_error = Thrown (err_name: string) (message: string)

definition TypeError :: "string \<Rightarrow> js_error" where
  "TypeError msg = Thrown ''TypeError'' msg"

definition Error :: "string \<Rightarrow> js_error" where
  "Error msg = Thrown ''Error'' msg"

text \<open>A name in single quotes, as error messages write it.\<close>

definition quoted :: "string \<Rightarrow> string" where
  "quoted s = [CHR 0x27] @ s @ [CHR 0x27]"

text \<open>Truthiness, as \<^verbatim>\<open>!x\<close>, \<^verbatim>\<open>if (x)\<close>, \<^verbatim>\<open>x && y\<close> and \<^verbatim>\<open>x || y\<close> test it.\<close>

fun truthy :: "json \<Rightarrow> bool" where
  "truthy JUndefined = False"
| "truthy JNull = False"
| "truthy (JBool b) = b"
| "truthy (JNum s) = (s \<noteq> ''0'' \<and> s \<noteq> ''NaN'')"
| "truthy (JStr s) = (s \<noteq> [])"
| "truthy (JArr xs) = True"
| "truthy (JObj kvs) = True"

fun nullish :: "json \<Rightarrow> bool" where
  "nullish JUndefined = True"
| "nullish JNull = True"
| "nullish v = False"

text \<open>
  \<^verbatim>\<open>v?.k\<close> for the property names the program reads (\<^verbatim>\<open>prompt\<close>, \<^verbatim>\<open>negative\<close>,
  \<^verbatim>\<open>image\<close>, \<^verbatim>\<open>mask\<close>, \<^verbatim>\<open>data\<close>, \<^verbatim>\<open>mimeType\<close>, \<^verbatim>\<open>response\<close>, \<^verbatim>\<open>candidates\<close>, \<^verbatim>\<open>content\<close>,
  \<^verbatim>\<open>parts\<close>, \<^verbatim>\<open>inlineData\<close>, \<^verbatim>\<open>text\<close>, \<^verbatim>\<open>finishReason\<close>): none of them is a property of
  a string, number, boolean or array, so only an object can hold one. On
  \<^verbatim>\<open>null\<close> and \<^verbatim>\<open>undefined\<close> the optional read gives \<^verbatim>\<open>undefined\<close>; the plain read
  \<^verbatim>\<open>v.k\<close> throws there.
\<close>

fun get :: "json \<Rightarrow> string \<Rightarrow> json" where
  "get (JObj kvs) k = (case map_of kvs k of None \<Rightarrow> JUndefined | Some v \<Rightarrow> v)"
| "get v k = JUndefined"

definition cannot_read :: "json \<Rightarrow> string \<Rightarrow> js_error" where
  "cannot_read v k =
     TypeError (''Cannot read properties of ''
        @ (if v = JNull then ''null'' else ''undefined'')
        @ '' (reading '' @ quoted k @ '')'')"

text \<open>
  The error of \<^verbatim>\<open>const { k, ... } = expr\<close> when the value of \<^verbatim>\<open>expr\<close> is \<^verbatim>\<open>null\<close> or
  \<^verbatim>\<open>undefined\<close>.
\<close>

definition cannot_destructure :: "string \<Rightarrow> string \<Rightarrow> json \<Rightarrow> js_error" where
  "cannot_destructure k expr v =
     TypeError (''Cannot destructure property '' @ quoted k @ '' of '' @ quoted expr
        @ '' as it is '' @ (if v = JNull then ''null'' else ''undefined'') @ ''.'')"

definition read_prop :: "json \<Rightarrow> string \<Rightarrow> js_error + json" where
  "read_prop v k = (if nullish v then Inl (cannot_read v k) else Inr (get v k))"

text \<open>\<^verbatim>\<open>v?.[0]\<close>: the first element of an array, the first character of a string.\<close>

fun index0 :: "json \<Rightarrow> json" where
  "index0 (JArr xs) = (case xs of [] \<Rightarrow> JUndefined | x # _ \<Rightarrow> x)"
| "index0 (JObj kvs) = (case map_of kvs ''0'' of None \<Rightarrow> JUndefined | Some v \<Rightarrow> v)"
| "index0 (JStr s) = (case s of [] \<Rightarrow> JUndefined | c # _ \<Rightarrow> JStr [c])"
| "index0 v = JUndefined"

text \<open>
  \<^verbatim>\<open>ToString\<close>, as a template literal and \<^verbatim>\<open>new Error(x)\<close> apply it. An array joins
  its elements with commas, \<^verbatim>\<open>null\<close> and \<^verbatim>\<open>undefined\<close> elements as the empty string. An
  object renders as \<^verbatim>\<open>[object Object]\<close>, unless it has an own property \<^verbatim>\<open>toString\<close>:
  that one is data, not a function, and the conversion throws.
\<close>

fun join_with :: "string \<Rightarrow> string list \<Rightarrow> string" where
  "join_with sep [] = []"
| "join_with sep [s] = s"
| "join_with sep (s # t # ss) = s @ sep @ join_with sep (t # ss)"

fun to_string :: "json \<Rightarrow> js_error + string"
  and to_strings :: "json list \<Rightarrow> js_error + string list" where
  "to_string JUndefined = Inr ''undefined''"
| "to_string JNull = Inr ''null''"
| "to_string (JBool b) = Inr (if b then ''true'' else ''false'')"
| "to_string (JNum s) = Inr s"
| "to_string (JStr s) = Inr s"
| "to_string (JArr xs) =
     (case to_strings xs of Inl e \<Rightarrow> Inl e | Inr ss \<Rightarrow> Inr (join_with '','' ss))"
| "to_string (JObj kvs) =
     (if map_of kvs ''toString'' \<noteq> None
      then Inl (TypeError ''Cannot convert object to primitive value'')
      else Inr ''[object Object]'')"
| "to_strings [] = Inr []"
| "to_strings (x # xs) =
     (case (if nullish x then Inr [] else to_string x) of
        Inl e \<Rightarrow> Inl e
      | Inr s \<Rightarrow> (case to_strings xs of Inl e \<Rightarrow> Inl e | Inr ss \<Rightarrow> Inr (s # ss)))"

section \<open>HTTP responses and the upstream collaborator\<close>

record http_response =
  status :: nat
  body :: json

text \<open>
  \<^verbatim>\<open>model.generateContent(request)\<close> either throws or returns a result object, whose
  \<^verbatim>\<open>response\<close> property the handler reads.
\<close>

datatype upstream_outcome = Throws js_error | Returns json

type_synonym upstream = "json \<Rightarrow> upstream_outcome"

text \<open>
  What becomes of a request to the route: the program answers it, or an exception leaves
  the middleware uncaught and the framework's own error handler takes over.
\<close>

datatype route_outcome = Responded http_response | Uncaught js_error

section \<open>Validation middleware\<close>

text \<open>\<^verbatim>\<open>res.status(400).json({ error: ..., details: ... })\<close>.\<close>

definition bad_request :: "string \<Rightarrow> string \<Rightarrow> http_response" where
  "bad_request err details =
     \<lparr>status = 400, body = JObj [(''error'', JStr err), (''details'', JStr details)]\<rparr>"

text \<open>
  \<^verbatim>\<open>validateGenerateRequest\<close>, applied to \<^verbatim>\<open>req.body\<close>: \<open>Inr (Some r)\<close> when the
  middleware answers with \<open>r\<close> itself, \<open>Inr None\<close> when it calls \<^verbatim>\<open>next()\<close>, \<open>Inl e\<close>
  when it throws \<open>e\<close>. It throws when \<^verbatim>\<open>req.body\<close> is \<^verbatim>\<open>undefined\<close> or \<^verbatim>\<open>null\<close>, which
  \<^verbatim>\<open>const { prompt } = req.body\<close> cannot destructure; the middleware has no
  \<^verbatim>\<open>try\<close>.
\<close>

definition validateGenerateRequest :: "json \<Rightarrow> js_error + http_response option" where
  "validateGenerateRequest req_body =
    (if nullish req_body then Inl (cannot_destructure ''prompt'' ''req.body'' req_body)
     else if \<not> truthy (get req_body ''prompt'') then
       Inr (Some (bad_request ''Missing required field''
         (''The '' @ quoted ''prompt'' @ '' field is required'')))
     else if truthy (get req_body ''image'') \<and>
             (\<not> truthy (get (get req_body ''image'') ''data'') \<or>
              \<not> truthy (get (get req_body ''image'') ''mimeType'')) then
       Inr (Some (bad_request ''Invalid image data''
         (''When providing an image, both '' @ quoted ''data'' @ '' and '' @ quoted ''mimeType''
            @ '' are required'')))
     else if truthy (get req_body ''mask'') \<and>
             (\<not> truthy (get (get req_body ''mask'') ''data'') \<or>
              \<not> truthy (get (get req_body ''mask'') ''mimeType'')) then
       Inr (Some (bad_request ''Invalid mask data''
         (''When providing a mask, both '' @ quoted ''data'' @ '' and '' @ quoted ''mimeType''
            @ '' are required'')))
     else Inr None)"

section \<open>Building the upstream request\<close>

text \<open>
  The error of calling \<^verbatim>\<open>expr.m(...)\<close> on a value that has no method \<^verbatim>\<open>m\<close>.
\<close>

definition no_method :: "string \<Rightarrow> json \<Rightarrow> string \<Rightarrow> js_error" where
  "no_method expr v m =
     (if nullish v then cannot_read v m
      else TypeError (expr @ ''.'' @ m @ '' is not a function''))"

text \<open>\<^verbatim>\<open>s.split(c)\<close> for a one-character separator, and \<^verbatim>\<open>Array.prototype.pop\<close>.\<close>

fun split :: "char \<Rightarrow> string \<Rightarrow> string list" where
  "split c [] = [[]]"
| "split c (x # xs) =
     (if x = c then [] # split c xs
      else (case split c xs of [] \<Rightarrow> [[x]] | w # ws \<Rightarrow> (x # w) # ws))"

definition pop :: "'a list \<Rightarrow> 'a option" where
  "pop xs = (if xs = [] then None else Some (last xs))"

definition base64ToGenerativePart :: "json \<Rightarrow> json \<Rightarrow> js_error + json" where
  "base64ToGenerativePart base64Data mimeType =
     (case base64Data of
        JStr s \<Rightarrow>
          Inr (JObj [(''inlineData'', JObj
            [(''data'', (case pop (split CHR '','' s) of None \<Rightarrow> JUndefined | Some d \<Rightarrow> JStr d)),
             (''mimeType'', mimeType)])])
      | v \<Rightarrow> Inl (no_method ''base64Data'' v ''split''))"

definition default_negative :: string where
  "default_negative = ''blurry, low quality, watermarks''"

text \<open>
  The template literal
  \<^verbatim>\<open>`${prompt}. --negative ${negative || 'blurry, low quality, watermarks'}`\<close>.
\<close>

definition fullPrompt :: "json \<Rightarrow> js_error + string" where
  "fullPrompt req_body =
     (case to_string (get req_body ''prompt'') of
        Inl e \<Rightarrow> Inl e
      | Inr p \<Rightarrow>
         (case to_string (if truthy (get req_body ''negative'') then get req_body ''negative''
                          else JStr default_negative) of
            Inl e \<Rightarrow> Inl e
          | Inr n \<Rightarrow> Inr (p @ ''. --negative '' @ n)))"

text \<open>\<^verbatim>\<open>prompt.substring(0, 40)\<close>, evaluated for the log line of either branch.\<close>

definition prompt_prefix :: "json \<Rightarrow> js_error + string" where
  "prompt_prefix prompt =
     (case prompt of JStr s \<Rightarrow> Inr (take 40 s) | v \<Rightarrow> Inl (no_method ''prompt'' v ''substring''))"

definition contents_request :: "json list \<Rightarrow> json" where
  "contents_request parts = JObj [(''contents'', JArr [JObj [(''parts'', JArr parts)]])]"

text \<open>
  The \<^verbatim>\<open>try\<close> block up to the upstream call: the \<^verbatim>\<open>request\<close> it builds, or the
  exception thrown on the way, the first of them by
  \<^verbatim>\<open>const { prompt, negative, image, mask } = req.body\<close> when \<^verbatim>\<open>req.body\<close> is
  \<^verbatim>\<open>undefined\<close> or \<^verbatim>\<open>null\<close>.
\<close>

definition build_request :: "json \<Rightarrow> js_error + json" where
  "build_request req_body =
    (let prompt = get req_body ''prompt'';
         image = get req_body ''image'';
         mask = get req_body ''mask''
     in if nullish req_body then Inl (cannot_destructure ''prompt'' ''req.body'' req_body)
        else case fullPrompt req_body of
          Inl e \<Rightarrow> Inl e
        | Inr fp \<Rightarrow>
           if truthy image \<and> truthy (get image ''data'') \<and> truthy (get image ''mimeType'') then
             (case prompt_prefix prompt of
                Inl e \<Rightarrow> Inl e
              | Inr _ \<Rightarrow>
                 (case base64ToGenerativePart (get image ''data'') (get image ''mimeType'') of
                    Inl e \<Rightarrow> Inl e
                  | Inr image_part \<Rightarrow>
                     if truthy mask \<and> truthy (get mask ''data'') \<and> truthy (get mask ''mimeType'') then
                       (case base64ToGenerativePart (get mask ''data'') (get mask ''mimeType'') of
                          Inl e \<Rightarrow> Inl e
                        | Inr mask_part \<Rightarrow>
                           Inr (contents_request
                                  [JObj [(''text'', JStr fp)], image_part, mask_part]))
                     else Inr (contents_request [JObj [(''text'', JStr fp)], image_part])))
           else
             (case prompt_prefix prompt of
                Inl e \<Rightarrow> Inl e
              | Inr _ \<Rightarrow> Inr (JStr fp)))"

section \<open>Extracting the result\<close>

text \<open>\<^verbatim>\<open>parts.find(p => p.inlineData)\<close>: \<^verbatim>\<open>undefined\<close> when no element passes.\<close>

fun find_inlineData :: "json list \<Rightarrow> js_error + json" where
  "find_inlineData [] = Inr JUndefined"
| "find_inlineData (p # ps) =
     (case read_prop p ''inlineData'' of
        Inl e \<Rightarrow> Inl e
      | Inr d \<Rightarrow> if truthy d then Inr p else find_inlineData ps)"

text \<open>The chain \<^verbatim>\<open>response.candidates?.[0]?.content?.parts\<close>, given \<^verbatim>\<open>response.candidates\<close>.\<close>

definition first_candidate_parts :: "json \<Rightarrow> json" where
  "first_candidate_parts candidates = get (get (index0 candidates) ''content'') ''parts''"

definition no_image_message :: string where
  "no_image_message = ''No image data returned from API and no error message found.''"

text \<open>\<^verbatim>\<open>v[0]\<close>, which throws on \<^verbatim>\<open>null\<close> and \<^verbatim>\<open>undefined\<close>.\<close>

definition read_index0 :: "json \<Rightarrow> js_error + json" where
  "read_index0 v = (if nullish v then Inl (cannot_read v ''0'') else Inr (index0 v))"

text \<open>
  The \<^verbatim>\<open>try\<close> block after the upstream call returned \<open>result\<close>: the success response,
  or the exception thrown. A field of the response body whose value is
  \<^verbatim>\<open>undefined\<close> is one that \<^verbatim>\<open>res.json\<close> leaves out.
\<close>

definition extract_result :: "json \<Rightarrow> js_error + http_response" where
  "extract_result result =
    (case read_prop result ''response'' of
       Inl e \<Rightarrow> Inl e
     | Inr response \<Rightarrow>
      (case read_prop response ''candidates'' of
         Inl e \<Rightarrow> Inl e
       | Inr candidates \<Rightarrow>
        (case (case first_candidate_parts candidates of
                 JUndefined \<Rightarrow> Inr JUndefined
               | JNull \<Rightarrow> Inr JUndefined
               | JArr ps \<Rightarrow> find_inlineData ps
               | v \<Rightarrow> Inl (TypeError
                   ''response.candidates?.[0]?.content?.parts?.find is not a function'')) of
           Inl e \<Rightarrow> Inl e
         | Inr imagePart \<Rightarrow>
            if \<not> truthy imagePart then
              (let text = get (index0 (first_candidate_parts candidates)) ''text'';
                   errorText = (if truthy text then text else JStr no_image_message)
               in case to_string errorText of
                    Inl e \<Rightarrow> Inl e
                  | Inr msg \<Rightarrow> Inl (Error msg))
            else
              (case read_index0 candidates of
                 Inl e \<Rightarrow> Inl e
               | Inr candidate \<Rightarrow>
                  (case read_prop candidate ''finishReason'' of
                     Inl e \<Rightarrow> Inl e
                   | Inr finishReason \<Rightarrow>
                      Inr \<lparr>status = 200, body = JObj
                        [(''image'', get (get imagePart ''inlineData'') ''data''),
                         (''finishReason'', finishReason)]\<rparr>)))))"

section \<open>The route\<close>

text \<open>The \<^verbatim>\<open>catch\<close> block.\<close>

definition error_response :: "js_error \<Rightarrow> http_response" where
  "error_response e = \<lparr>status = 500, body = JObj
     [(''error'', JStr ''Image Generation Failed.''),
      (''details'', JStr (message e)),
      (''checkLogs'', JStr ''Check server logs for full traceback.'')]\<rparr>"

text \<open>
  The handler of \<^verbatim>\<open>POST /generate\<close>: the response it sends and the requests it made
  to the upstream model, in order.
\<close>

definition generate_handler :: "upstream \<Rightarrow> json \<Rightarrow> http_response \<times> json list" where
  "generate_handler generateContent req_body =
    (case build_request req_body of
       Inl e \<Rightarrow> (error_response e, [])
     | Inr request \<Rightarrow>
        (case generateContent request of
           Throws e \<Rightarrow> (error_response e, [request])
         | Returns result \<Rightarrow>
            (case extract_result result of
               Inl e \<Rightarrow> (error_response e, [request])
             | Inr res \<Rightarrow> (res, [request]))))"

text \<open>
  \<^verbatim>\<open>app.post('/generate', validateGenerateRequest, handler)\<close>: what becomes of the
  request, and the requests made to the upstream model, in order. The handler runs only
  after \<^verbatim>\<open>next()\<close>, and always answers.
\<close>

definition post_generate :: "upstream \<Rightarrow> json \<Rightarrow> route_outcome \<times> json list" where
  "post_generate generateContent req_body =
    (case validateGenerateRequest req_body of
       Inl e \<Rightarrow> (Uncaught e, [])
     | Inr (Some res) \<Rightarrow> (Responded res, [])
     | Inr None \<Rightarrow>
        (case generate_handler generateContent req_body of
           (res, calls) \<Rightarrow> (Responded res, calls)))"

section \<open>Base64 text\<close>

text \<open>
  The characters of base64 text, as the \<open>data\<close> of an image or mask is meant to be once
  a data-URL prefix is removed.
\<close>

definition base64_char :: "char \<Rightarrow> bool" where
  "base64_char c =
     (c \<in> set ''ABCDEFGHIJKLMNOPQRSTUVWXYZabcdefghijklmnopqrstuvwxyz0123456789+/='')"

definition base64_text :: "string \<Rightarrow> bool" where
  "base64_text s = list_all base64_char s"

section \<open>Example requests and upstream replies\<close>

definition png_part :: "string \<Rightarrow> json" where
  "png_part d = JObj [(''data'', JStr d), (''mimeType'', JStr ''image/png'')]"

definition text_request :: json where
  "text_request = JObj [(''prompt'', JStr ''cat'')]"


definition empty_negative_request :: json where
  "empty_negative_request = JObj [(''prompt'', JStr ''cat''), (''negative'', JStr [])]"

definition image_request :: json where
  "image_request = JObj
     [(''prompt'', JStr ''cat''), (''image'', png_part ''data:image/png;base64,QUJD'')]"

definition inpaint_request :: json where
  "inpaint_request = JObj
     [(''prompt'', JStr ''cat''), (''image'', png_part ''data:image/png;base64,QUJD''),
      (''mask'', png_part ''TUFTSw=='')]"

definition mask_only_request :: json where
  "mask_only_request = JObj [(''prompt'', JStr ''cat''), (''mask'', png_part ''TUFTSw=='')]"

definition mask_without_prompt_request :: json where
  "mask_without_prompt_request = JObj [(''mask'', png_part ''TUFTSw=='')]"

definition no_prompt_request :: json where
  "no_prompt_request = JObj [(''negative'', JStr ''dog'')]"

definition bad_mask_request :: json where
  "bad_mask_request = JObj
     [(''prompt'', JStr ''cat''), (''image'', png_part ''QUJD''),
      (''mask'', JObj [(''mimeType'', JStr ''image/png'')])]"

definition candidate :: "json list \<Rightarrow> string \<Rightarrow> json" where
  "candidate parts reason =
     JObj [(''content'', JObj [(''parts'', JArr parts)]), (''finishReason'', JStr reason)]"

definition result_of :: "json list \<Rightarrow> json" where
  "result_of candidates = JObj [(''response'', JObj [(''candidates'', JArr candidates)])]"

definition image_result :: json where
  "image_result = result_of
     [candidate [JObj [(''text'', JStr ''Here you go'')], JObj [(''inlineData'', png_part ''R0lG'')],
                 JObj [(''inlineData'', png_part ''SkZJ'')]] ''STOP'']"

definition second_candidate_result :: json where
  "second_candidate_result = result_of
     [candidate [JObj [(''text'', JStr ''Variant one'')]] ''STOP'',
      candidate [JObj [(''inlineData'', png_part ''R0lG'')]] ''STOP'']"

definition refusal_result :: json where
  "refusal_result = result_of [candidate [JObj [(''text'', JStr ''Cannot comply'')]] ''SAFETY'']"

definition empty_text_result :: json where
  "empty_text_result = result_of [candidate [JObj [(''text'', JStr [])]] ''SAFETY'']"

text \<open>Upstream stubs: one that always returns a result, one that always throws.\<close>

definition returning :: "json \<Rightarrow> upstream" where
  "returning result = (\<lambda>request. Returns result)"

definition throwing :: "js_error \<Rightarrow> upstream" where
  "throwing e = (\<lambda>request. Throws e)"

section \<open>Properties of the primitives\<close>

lemma split_not_Nil: "split c s \<noteq> []"
  by (induction s) (auto split: list.splits)

lemma split_no_sep: "c \<notin> set s \<Longrightarrow> split c s = [s]"
  by (induction s) auto

lemma split_length: "c \<in> set s \<Longrightarrow> 2 \<le> length (split c s)"
  by (induction s) (auto split: list.splits simp: split_not_Nil)

lemma last_split_Cons: "c \<in> set s \<Longrightarrow> last (split c (x # s)) = last (split c s)"
  using split_length[of c s] by (cases "split c s") (auto split: list.splits)

lemma last_split_sep: "c \<notin> set b \<Longrightarrow> last (split c (pre @ c # b)) = b"
proof (induction pre)
  case Nil
  then show ?case by (simp add: split_no_sep)
next
  case (Cons x pre)
  have "c \<in> set (pre @ c # b)" by simp
  then have "last (split c (x # pre @ c # b)) = last (split c (pre @ c # b))"
    by (rule last_split_Cons)
  with Cons show ?case by simp
qed

lemma pop_split: "pop (split c s) = Some (last (split c s))"
  by (simp add: pop_def split_not_Nil)

lemma base64_char_not_comma: "\<not> base64_char CHR '',''"
  by (simp add: base64_char_def)

lemma base64_text_no_comma: "base64_text s \<Longrightarrow> CHR '','' \<notin> set s"
  unfolding base64_text_def list_all_iff using base64_char_not_comma by blast

lemma part_of_string:
  "base64ToGenerativePart (JStr s) m =
     Inr (JObj [(''inlineData'', JObj [(''data'', JStr (last (split CHR '','' s))), (''mimeType'', m)])])"
  by (simp add: base64ToGenerativePart_def pop_split)

lemma truthy_get_object: "truthy (get v k) \<Longrightarrow> \<exists>kvs. v = JObj kvs"
  by (cases v) auto

lemma get_defined_object: "get v k \<noteq> JUndefined \<Longrightarrow> \<exists>kvs. v = JObj kvs"
  by (cases v) auto

lemma index0_defined: "index0 v \<noteq> JUndefined \<Longrightarrow> \<not> nullish v"
  by (cases v) auto

lemma find_inlineData_first:
  assumes "\<forall>q \<in> set pre. \<not> nullish q \<and> \<not> truthy (get q ''inlineData'')"
    and "truthy (get p ''inlineData'')"
  shows "find_inlineData (pre @ p # post) = Inr p"
  using assms
proof (induction pre)
  case Nil
  from Nil(2) obtain kvs where "p = JObj kvs" by (auto dest: truthy_get_object)
  with Nil(2) show ?case by (simp add: read_prop_def)
next
  case (Cons q pre)
  then show ?case by (simp add: read_prop_def)
qed

lemma find_inlineData_none:
  "\<forall>q \<in> set ps. \<not> nullish q \<and> \<not> truthy (get q ''inlineData'') \<Longrightarrow>
   find_inlineData ps = Inr JUndefined"
  by (induction ps) (simp_all add: read_prop_def)

lemma prompt_prefix_string: "prompt_prefix (JStr p) = Inr (take 40 p)"
  by (simp add: prompt_prefix_def)

section \<open>The route, step by step\<close>

lemma get_defined_not_nullish: "get v k \<noteq> JUndefined \<Longrightarrow> \<not> nullish v"
  by (cases v) auto

lemma truthy_get_not_nullish: "truthy (get v k) \<Longrightarrow> \<not> nullish v"
  by (cases v) auto

lemma post_generate_rejected:
  "validateGenerateRequest req_body = Inr (Some res) \<Longrightarrow>
   post_generate gen req_body = (Responded res, [])"
  by (simp add: post_generate_def)

lemma post_generate_validated:
  "validateGenerateRequest req_body = Inr None \<Longrightarrow>
   post_generate gen req_body =
     (Responded (fst (generate_handler gen req_body)), snd (generate_handler gen req_body))"
  by (simp add: post_generate_def split: prod.splits)

lemma handler_calls:
  "build_request req_body = Inr request \<Longrightarrow> snd (generate_handler gen req_body) = [request]"
  by (simp add: generate_handler_def split: upstream_outcome.splits sum.splits)

lemma handler_no_call:
  "build_request req_body = Inl e \<Longrightarrow> snd (generate_handler gen req_body) = []"
  by (simp add: generate_handler_def)

lemma handler_returned:
  "build_request req_body = Inr request \<Longrightarrow> gen request = Returns result \<Longrightarrow>
   generate_handler gen req_body =
     (case extract_result result of
        Inl e \<Rightarrow> (error_response e, [request])
      | Inr res \<Rightarrow> (res, [request]))"
  by (simp add: generate_handler_def)

lemma handler_threw:
  "build_request req_body = Inr request \<Longrightarrow> gen request = Throws e \<Longrightarrow>
   generate_handler gen req_body = (error_response e, [request])"
  by (simp add: generate_handler_def)

lemma validated_image:
  "validateGenerateRequest req_body = Inr None \<Longrightarrow> truthy (get req_body ''image'') \<Longrightarrow>
   truthy (get (get req_body ''image'') ''data'') \<and> truthy (get (get req_body ''image'') ''mimeType'')"
  by (simp add: validateGenerateRequest_def split: if_splits)

lemma validated_mask:
  "validateGenerateRequest req_body = Inr None \<Longrightarrow> truthy (get req_body ''mask'') \<Longrightarrow>
   truthy (get (get req_body ''mask'') ''data'') \<and> truthy (get (get req_body ''mask'') ''mimeType'')"
  by (simp add: validateGenerateRequest_def split: if_splits)

lemma build_text:
  assumes "get req_body ''prompt'' = JStr p" and "fullPrompt req_body = Inr fp"
    and "\<not> truthy (get req_body ''image'')"
  shows "build_request req_body = Inr (JStr fp)"
proof -
  from assms(1) have "get req_body ''prompt'' \<noteq> JUndefined" by simp
  then have "\<not> nullish req_body" by (rule get_defined_not_nullish)
  with assms show ?thesis
    by (simp add: build_request_def prompt_prefix_string)
qed

lemma build_text_branch:
  assumes "\<not> truthy (get req_body ''image'')" and "build_request req_body = Inr request"
  shows "\<exists>fp. fullPrompt req_body = Inr fp \<and> request = JStr fp"
  using assms
  by (auto simp add: build_request_def Let_def split: if_splits sum.splits)

lemma handler_calls_text:
  assumes "\<not> truthy (get req_body ''image'')"
  shows "\<forall>rq \<in> set (snd (generate_handler gen req_body)).
           \<exists>fp. fullPrompt req_body = Inr fp \<and> rq = JStr fp"
proof (cases "build_request req_body")
  case (Inl e)
  then show ?thesis by (simp add: handler_no_call)
next
  case (Inr request)
  with assms have "\<exists>fp. fullPrompt req_body = Inr fp \<and> request = JStr fp"
    by (rule build_text_branch)
  with Inr show ?thesis by (simp add: handler_calls)
qed

lemma post_generate_calls:
  "snd (post_generate gen req_body) = [] \<or>
   (validateGenerateRequest req_body = Inr None \<and>
    snd (post_generate gen req_body) = snd (generate_handler gen req_body))"
  by (simp add: post_generate_def split: sum.splits option.splits prod.splits)

lemma forwarded_data:
  assumes "(d = prefix @ '','' @ rest \<and> CHR '','' \<notin> set rest) \<or>
           (base64_text d \<and> rest = d) \<or> (CHR '','' \<notin> set d \<and> rest = d)"
  shows "last (split CHR '','' d) = rest"
  using assms
proof (elim disjE conjE)
  assume "d = prefix @ '','' @ rest" and "CHR '','' \<notin> set rest"
  then show ?thesis using last_split_sep [of "CHR '',''" rest prefix] by simp
next
  assume "base64_text d" and "rest = d"
  then show ?thesis by (simp add: base64_text_no_comma split_no_sep)
next
  assume "CHR '','' \<notin> set d" and "rest = d"
  then show ?thesis by (simp add: split_no_sep)
qed

lemma build_image:
  assumes "get req_body ''prompt'' = JStr p" and "fullPrompt req_body = Inr fp"
    and "truthy (get req_body ''image'')"
    and "get (get req_body ''image'') ''data'' = JStr d" and "d \<noteq> []"
    and "truthy (get (get req_body ''image'') ''mimeType'')"
    and "\<not> truthy (get req_body ''mask'')"
  shows "build_request req_body = Inr (contents_request
     [JObj [(''text'', JStr fp)],
      JObj [(''inlineData'', JObj [(''data'', JStr (last (split CHR '','' d))),
                                   (''mimeType'', get (get req_body ''image'') ''mimeType'')])]])"
proof -
  from assms(3) have "\<not> nullish req_body" by (rule truthy_get_not_nullish)
  with assms show ?thesis
    by (simp add: build_request_def prompt_prefix_string part_of_string)
qed

lemma build_inpaint:
  assumes "get req_body ''prompt'' = JStr p" and "fullPrompt req_body = Inr fp"
    and "truthy (get req_body ''image'')"
    and "get (get req_body ''image'') ''data'' = JStr d" and "d \<noteq> []"
    and "truthy (get (get req_body ''image'') ''mimeType'')"
    and "truthy (get req_body ''mask'')"
    and "get (get req_body ''mask'') ''data'' = JStr md" and "md \<noteq> []"
    and "truthy (get (get req_body ''mask'') ''mimeType'')"
  shows "build_request req_body = Inr (contents_request
     [JObj [(''text'', JStr fp)],
      JObj [(''inlineData'', JObj [(''data'', JStr (last (split CHR '','' d))),
                                   (''mimeType'', get (get req_body ''image'') ''mimeType'')])],
      JObj [(''inlineData'', JObj [(''data'', JStr (last (split CHR '','' md))),
                                   (''mimeType'', get (get req_body ''mask'') ''mimeType'')])]])"
proof -
  from assms(3) have "\<not> nullish req_body" by (rule truthy_get_not_nullish)
  with assms show ?thesis
    by (simp add: build_request_def prompt_prefix_string part_of_string)
qed

lemma parts_defined_candidates:
  assumes "first_candidate_parts candidates \<noteq> JUndefined"
  shows "\<not> nullish candidates \<and> \<not> nullish (index0 candidates)"
proof -
  from assms obtain c where "get (index0 candidates) ''content'' = JObj c"
    unfolding first_candidate_parts_def by (auto dest: get_defined_object)
  then have "get (index0 candidates) ''content'' \<noteq> JUndefined" by simp
  then obtain kvs where k: "index0 candidates = JObj kvs"
    by (auto dest: get_defined_object)
  then have "index0 candidates \<noteq> JUndefined" by simp
  then have "\<not> nullish candidates" by (rule index0_defined)
  with k show ?thesis by simp
qed

lemma read_prop_defined: "get v k \<noteq> JUndefined \<Longrightarrow> read_prop v k = Inr (get v k)"
  by (auto simp add: read_prop_def dest: get_defined_object)

lemma not_nullish_defined: "\<not> nullish v \<Longrightarrow> v \<noteq> JUndefined"
  by auto

lemma extract_image:
  assumes parts: "first_candidate_parts (get (get result ''response'') ''candidates'')
       = JArr (pre @ p # post)"
    and pre: "\<forall>q \<in> set pre. \<not> nullish q \<and> \<not> truthy (get q ''inlineData'')"
    and p: "truthy (get p ''inlineData'')"
  shows "extract_result result = Inr \<lparr>status = 200, body = JObj
     [(''image'', get (get p ''inlineData'') ''data''),
      (''finishReason'',
         get (index0 (get (get result ''response'') ''candidates'')) ''finishReason'')]\<rparr>"
proof -
  let ?response = "get result ''response''"
  let ?candidates = "get ?response ''candidates''"
  from parts have "first_candidate_parts ?candidates \<noteq> JUndefined" by simp
  then have c: "\<not> nullish ?candidates" "\<not> nullish (index0 ?candidates)"
    using parts_defined_candidates by blast+
  from c(1) have cd: "?candidates \<noteq> JUndefined" by (rule not_nullish_defined)
  then have rc: "read_prop ?response ''candidates'' = Inr ?candidates"
    by (rule read_prop_defined)
  from cd obtain r where "?response = JObj r" by (auto dest: get_defined_object)
  then have "?response \<noteq> JUndefined" by simp
  then have rr: "read_prop result ''response'' = Inr ?response"
    by (rule read_prop_defined)
  from pre p have f: "find_inlineData (pre @ p # post) = Inr p"
    by (rule find_inlineData_first)
  from p obtain kvs where "p = JObj kvs" by (auto dest: truthy_get_object)
  then have tp: "truthy p" by simp
  from c have ri: "read_index0 ?candidates = Inr (index0 ?candidates)"
    by (simp add: read_index0_def)
  from c have rf: "read_prop (index0 ?candidates) ''finishReason''
      = Inr (get (index0 ?candidates) ''finishReason'')"
    by (simp add: read_prop_def)
  show ?thesis
    unfolding extract_result_def by (simp add: rr rc parts f tp ri rf)
qed

lemma extract_no_image:
  assumes resp: "\<not> nullish (get result ''response'')"
    and parts: "first_candidate_parts (get (get result ''response'') ''candidates'') = parts"
    and none: "nullish parts \<or>
       (\<exists>ps. parts = JArr ps \<and> (\<forall>q \<in> set ps. \<not> nullish q \<and> \<not> truthy (get q ''inlineData'')))"
  shows "extract_result result =
     (case to_string (if truthy (get (index0 parts) ''text'') then get (index0 parts) ''text''
                      else JStr no_image_message) of
        Inl e \<Rightarrow> Inl e
      | Inr msg \<Rightarrow> Inl (Error msg))"
proof -
  let ?response = "get result ''response''"
  from resp have "?response \<noteq> JUndefined" by (rule not_nullish_defined)
  then have rr: "read_prop result ''response'' = Inr ?response"
    by (rule read_prop_defined)
  from resp have rc: "read_prop ?response ''candidates'' = Inr (get ?response ''candidates'')"
    by (simp add: read_prop_def)
  from none show ?thesis
  proof
    assume "nullish parts"
    then have "parts = JUndefined \<or> parts = JNull" by (cases parts) auto
    then show ?thesis
      unfolding extract_result_def by (auto simp add: rr rc parts)
  next
    assume "\<exists>ps. parts = JArr ps \<and> (\<forall>q \<in> set ps. \<not> nullish q \<and> \<not> truthy (get q ''inlineData''))"
    then obtain ps where ps: "parts = JArr ps"
      and "\<forall>q \<in> set ps. \<not> nullish q \<and> \<not> truthy (get q ''inlineData'')"
      by blast
    then have "find_inlineData ps = Inr JUndefined"
      by (simp add: find_inlineData_none)
    then show ?thesis
      unfolding extract_result_def by (simp add: rr rc parts ps)
  qed
qed

section \<open>Validation\<close>

text \<open>
  C7. A request whose \<open>prompt\<close> is missing (or otherwise falsy: empty, \<open>null\<close>) never
  reaches the upstream model. When the request has a body, that is when \<^verbatim>\<open>req.body\<close> is
  the parsed JSON value and not \<^verbatim>\<open>undefined\<close>, the middleware answers it with status 400
  and a JSON object with the fields \<open>error\<close> and \<open>details\<close>.
\<close>

theorem missing_prompt_rejected:
  assumes "\<not> truthy (get req_body ''prompt'')"
  shows "snd (post_generate gen req_body) = [] \<and>
    (\<not> nullish req_body \<longrightarrow>
       post_generate gen req_body =
         (Responded \<lparr>status = 400, body = JObj
            [(''error'', JStr ''Missing required field''),
             (''details'', JStr (''The '' @ quoted ''prompt'' @ '' field is required''))]\<rparr>, []))"
  using assms by (simp add: post_generate_def validateGenerateRequest_def bad_request_def)

theorem missing_prompt_rejected_witness:
  "\<not> truthy (get no_prompt_request ''prompt'') \<and> \<not> nullish no_prompt_request \<and>
   post_generate (returning image_result) no_prompt_request =
     (Responded \<lparr>status = 400, body = JObj
        [(''error'', JStr ''Missing required field''),
         (''details'', JStr (''The '' @ quoted ''prompt'' @ '' field is required''))]\<rparr>, [])"
proof -
  have h: "\<not> truthy (get no_prompt_request ''prompt'')"
    and n: "\<not> nullish no_prompt_request"
    by (simp_all add: no_prompt_request_def)
  from missing_prompt_rejected [OF h, of "returning image_result"] h n
  show ?thesis by blast
qed

text \<open>
  C8. A request whose \<open>image\<close> or \<open>mask\<close> is present but lacks \<open>data\<close> or \<open>mimeType\<close>
  (the field is missing or falsy) is answered by the middleware with status 400 and an
  \<open>error\<close>/\<open>details\<close> object, and the upstream model receives no request. The condition on
  the mask does not mention the image: an incomplete mask is rejected whatever the image is.
\<close>

theorem incomplete_image_or_mask_rejected:
  assumes "(truthy (get req_body ''image'') \<and>
              (\<not> truthy (get (get req_body ''image'') ''data'') \<or>
               \<not> truthy (get (get req_body ''image'') ''mimeType''))) \<or>
           (truthy (get req_body ''mask'') \<and>
              (\<not> truthy (get (get req_body ''mask'') ''data'') \<or>
               \<not> truthy (get (get req_body ''mask'') ''mimeType'')))"
  shows "\<exists>err details.
           validateGenerateRequest req_body = Inr (Some (bad_request err details)) \<and>
           post_generate gen req_body =
             (Responded \<lparr>status = 400, body = JObj [(''error'', JStr err), (''details'', JStr details)]\<rparr>, [])"
proof -
  let ?bad_image = "truthy (get req_body ''image'') \<and>
              (\<not> truthy (get (get req_body ''image'') ''data'') \<or>
               \<not> truthy (get (get req_body ''image'') ''mimeType''))"
  let ?bad_mask = "truthy (get req_body ''mask'') \<and>
              (\<not> truthy (get (get req_body ''mask'') ''data'') \<or>
               \<not> truthy (get (get req_body ''mask'') ''mimeType''))"
  from assms have body: "\<not> nullish req_body"
    by (auto dest: truthy_get_not_nullish)
  consider (no_prompt) "\<not> truthy (get req_body ''prompt'')"
    | (image) "truthy (get req_body ''prompt'')" "?bad_image"
    | (mask) "truthy (get req_body ''prompt'')" "\<not> ?bad_image" "?bad_mask"
    using assms by blast
  then have "\<exists>err details. validateGenerateRequest req_body = Inr (Some (bad_request err details))"
  proof cases
    case no_prompt
    then have "validateGenerateRequest req_body = Inr (Some (bad_request ''Missing required field''
         (''The '' @ quoted ''prompt'' @ '' field is required'')))"
      using body by (simp add: validateGenerateRequest_def)
    then show ?thesis by blast
  next
    case image
    then have "validateGenerateRequest req_body = Inr (Some (bad_request ''Invalid image data''
         (''When providing an image, both '' @ quoted ''data'' @ '' and '' @ quoted ''mimeType''
            @ '' are required'')))"
      using body unfolding validateGenerateRequest_def by (simp only: simp_thms if_True if_False)
    then show ?thesis by blast
  next
    case mask
    then have "validateGenerateRequest req_body = Inr (Some (bad_request ''Invalid mask data''
         (''When providing a mask, both '' @ quoted ''data'' @ '' and '' @ quoted ''mimeType''
            @ '' are required'')))"
      using body unfolding validateGenerateRequest_def by (simp only: simp_thms if_True if_False)
    then show ?thesis by blast
  qed
  then obtain err details
    where v: "validateGenerateRequest req_body = Inr (Some (bad_request err details))"
    by blast
  then have "post_generate gen req_body = (Responded (bad_request err details), [])"
    by (rule post_generate_rejected)
  with v show ?thesis unfolding bad_request_def by blast
qed

theorem incomplete_image_or_mask_rejected_witness:
  "truthy (get bad_mask_request ''mask'') \<and>
   \<not> truthy (get (get bad_mask_request ''mask'') ''data'') \<and>
   truthy (get (get bad_mask_request ''image'') ''data'') \<and>
   truthy (get (get bad_mask_request ''image'') ''mimeType'') \<and>
   (\<exists>err details.
      validateGenerateRequest bad_mask_request = Inr (Some (bad_request err details)) \<and>
      post_generate (returning image_result) bad_mask_request =
        (Responded \<lparr>status = 400, body = JObj [(''error'', JStr err), (''details'', JStr details)]\<rparr>, []))"
proof -
  have m: "truthy (get bad_mask_request ''mask'')"
    and d: "\<not> truthy (get (get bad_mask_request ''mask'') ''data'')"
    and i: "truthy (get (get bad_mask_request ''image'') ''data'')"
           "truthy (get (get bad_mask_request ''image'') ''mimeType'')"
    by (simp_all add: bad_mask_request_def png_part_def)
  from m d have h:
    "(truthy (get bad_mask_request ''image'') \<and>
        (\<not> truthy (get (get bad_mask_request ''image'') ''data'') \<or>
         \<not> truthy (get (get bad_mask_request ''image'') ''mimeType''))) \<or>
     (truthy (get bad_mask_request ''mask'') \<and>
        (\<not> truthy (get (get bad_mask_request ''mask'') ''data'') \<or>
         \<not> truthy (get (get bad_mask_request ''mask'') ''mimeType'')))"
    by blast
  from incomplete_image_or_mask_rejected [OF h, of "returning image_result"] m d i
  show ?thesis by blast
qed

section \<open>Upstream failure\<close>

text \<open>
  C6. When the request passes validation, the handler builds the upstream request and the
  upstream call throws, the answer has status 500 and the fields \<open>error\<close>, \<open>details\<close> and
  \<open>checkLogs\<close>, with \<open>details\<close> the message of the thrown error. The upstream model was
  called exactly once (no retry), and nothing of the error but its message enters the
  answer (its class is not looked at).
\<close>

theorem upstream_failure_response:
  assumes "validateGenerateRequest req_body = Inr None"
    and "build_request req_body = Inr request"
    and "gen request = Throws e"
  shows "post_generate gen req_body =
     (Responded \<lparr>status = 500, body = JObj
        [(''error'', JStr ''Image Generation Failed.''),
         (''details'', JStr (message e)),
         (''checkLogs'', JStr ''Check server logs for full traceback.'')]\<rparr>,
      [request])"
  using assms
  by (simp add: post_generate_validated handler_threw error_response_def)

theorem upstream_failure_response_witness:
  "validateGenerateRequest text_request = Inr None \<and>
   build_request text_request = Inr (JStr ''cat. --negative blurry, low quality, watermarks'') \<and>
   post_generate (throwing (Thrown ''GoogleGenerativeAIFetchError'' ''quota exceeded'')) text_request =
     (Responded \<lparr>status = 500, body = JObj
        [(''error'', JStr ''Image Generation Failed.''),
         (''details'', JStr ''quota exceeded''),
         (''checkLogs'', JStr ''Check server logs for full traceback.'')]\<rparr>,
      [JStr ''cat. --negative blurry, low quality, watermarks''])"
proof -
  have v: "validateGenerateRequest text_request = Inr None"
    by (simp add: validateGenerateRequest_def text_request_def)
  have b: "build_request text_request = Inr (JStr ''cat. --negative blurry, low quality, watermarks'')"
    by (simp add: build_request_def fullPrompt_def prompt_prefix_def default_negative_def
        text_request_def)
  have t: "throwing (Thrown ''GoogleGenerativeAIFetchError'' ''quota exceeded'')
             (JStr ''cat. --negative blurry, low quality, watermarks'')
           = Throws (Thrown ''GoogleGenerativeAIFetchError'' ''quota exceeded'')"
    by (simp add: throwing_def)
  from upstream_failure_response
    [of text_request _ "throwing (Thrown ''GoogleGenerativeAIFetchError'' ''quota exceeded'')", OF v b t]
    v b show ?thesis by simp
qed

section \<open>The normalized prompt\<close>




text \<open>
  C10. When \<open>negative\<close> is the empty string, the normalized prompt is the one of the same
  request without \<open>negative\<close>; for a text prompt \<open>p\<close> it is \<open>p\<close> followed by
  \<open>. --negative blurry, low quality, watermarks\<close>.
\<close>

theorem empty_negative_as_absent:
  assumes "get req_body ''negative'' = JStr []"
  shows "(get other ''prompt'' = get req_body ''prompt'' \<and> get other ''negative'' = JUndefined \<longrightarrow>
            fullPrompt req_body = fullPrompt other) \<and>
         (get req_body ''prompt'' = JStr p \<longrightarrow>
            fullPrompt req_body = Inr (p @ ''. --negative blurry, low quality, watermarks''))"
  using assms by (auto simp add: fullPrompt_def default_negative_def)

theorem empty_negative_as_absent_witness:
  "get empty_negative_request ''negative'' = JStr [] \<and>
   get text_request ''negative'' = JUndefined \<and>
   get text_request ''prompt'' = get empty_negative_request ''prompt'' \<and>
   fullPrompt empty_negative_request = fullPrompt text_request \<and>
   fullPrompt empty_negative_request = Inr ''cat. --negative blurry, low quality, watermarks''"
proof -
  have e: "get empty_negative_request ''negative'' = JStr []"
    and p: "get empty_negative_request ''prompt'' = JStr ''cat''"
    by (simp_all add: empty_negative_request_def)
  have a: "get text_request ''negative'' = JUndefined"
    and q: "get text_request ''prompt'' = JStr ''cat''"
    by (simp_all add: text_request_def)
  from p q have pq: "get text_request ''prompt'' = get empty_negative_request ''prompt''"
    by simp
  note inst = empty_negative_as_absent [OF e, of text_request "''cat''"]
  from inst pq a have c1: "fullPrompt empty_negative_request = fullPrompt text_request"
    by blast
  from inst p have "fullPrompt empty_negative_request =
      Inr (''cat'' @ ''. --negative blurry, low quality, watermarks'')"
    by blast
  then have c2: "fullPrompt empty_negative_request =
      Inr ''cat. --negative blurry, low quality, watermarks''"
    by simp
  from c1 c2 e a pq show ?thesis by blast
qed

section \<open>The shape of the upstream request\<close>

text \<open>
  C1. A request that passed validation, with a text prompt and normalized prompt \<open>fp\<close>,
  makes exactly one upstream call, whose payload depends on the presence of \<open>image\<close>
  (and, with an image, of \<open>mask\<close>) only: without image the plain string \<open>fp\<close>; with an
  image whose data is text and no mask, a contents list of two parts, the text part and
  the image part; with an image and a mask, three parts: text, image, mask.
\<close>

theorem payload_by_image_presence:
  assumes "validateGenerateRequest req_body = Inr None"
    and "get req_body ''prompt'' = JStr p"
    and "fullPrompt req_body = Inr fp"
  shows
   "(\<not> truthy (get req_body ''image'') \<longrightarrow>
       snd (post_generate gen req_body) = [JStr fp]) \<and>
    (truthy (get req_body ''image'') \<and> \<not> truthy (get req_body ''mask'') \<and>
     get (get req_body ''image'') ''data'' = JStr d \<longrightarrow>
       snd (post_generate gen req_body) =
         [JObj [(''contents'', JArr [JObj [(''parts'', JArr
            [JObj [(''text'', JStr fp)],
             JObj [(''inlineData'', JObj
               [(''data'', JStr (last (split CHR '','' d))),
                (''mimeType'', get (get req_body ''image'') ''mimeType'')])]])]])]]) \<and>
    (truthy (get req_body ''image'') \<and> truthy (get req_body ''mask'') \<and>
     get (get req_body ''image'') ''data'' = JStr d \<and>
     get (get req_body ''mask'') ''data'' = JStr md \<longrightarrow>
       snd (post_generate gen req_body) =
         [JObj [(''contents'', JArr [JObj [(''parts'', JArr
            [JObj [(''text'', JStr fp)],
             JObj [(''inlineData'', JObj
               [(''data'', JStr (last (split CHR '','' d))),
                (''mimeType'', get (get req_body ''image'') ''mimeType'')])],
             JObj [(''inlineData'', JObj
               [(''data'', JStr (last (split CHR '','' md))),
                (''mimeType'', get (get req_body ''mask'') ''mimeType'')])]])]])]])"
proof (intro conjI impI)
  note pg = post_generate_validated [OF assms(1)]
  {
    assume "\<not> truthy (get req_body ''image'')"
    with assms(2,3) have "build_request req_body = Inr (JStr fp)"
      by (rule build_text)
    then show "snd (post_generate gen req_body) = [JStr fp]"
      by (simp add: pg handler_calls)
  next
    assume a: "truthy (get req_body ''image'') \<and> \<not> truthy (get req_body ''mask'') \<and>
      get (get req_body ''image'') ''data'' = JStr d"
    then have i: "truthy (get (get req_body ''image'') ''data'')"
        "truthy (get (get req_body ''image'') ''mimeType'')"
      using validated_image [OF assms(1)] by simp_all
    from a i have "d \<noteq> []" by simp
    with a i assms(2,3) have "build_request req_body = Inr (contents_request
       [JObj [(''text'', JStr fp)],
        JObj [(''inlineData'', JObj [(''data'', JStr (last (split CHR '','' d))),
                                     (''mimeType'', get (get req_body ''image'') ''mimeType'')])]])"
      by (intro build_image) simp_all
    then show "snd (post_generate gen req_body) =
         [JObj [(''contents'', JArr [JObj [(''parts'', JArr
            [JObj [(''text'', JStr fp)],
             JObj [(''inlineData'', JObj
               [(''data'', JStr (last (split CHR '','' d))),
                (''mimeType'', get (get req_body ''image'') ''mimeType'')])]])]])]]"
      by (simp add: pg handler_calls contents_request_def)
  next
    assume a: "truthy (get req_body ''image'') \<and> truthy (get req_body ''mask'') \<and>
      get (get req_body ''image'') ''data'' = JStr d \<and>
      get (get req_body ''mask'') ''data'' = JStr md"
    then have i: "truthy (get (get req_body ''image'') ''data'')"
        "truthy (get (get req_body ''image'') ''mimeType'')"
      using validated_image [OF assms(1)] by simp_all
    from a have m: "truthy (get (get req_body ''mask'') ''data'')"
        "truthy (get (get req_body ''mask'') ''mimeType'')"
      using validated_mask [OF assms(1)] by simp_all
    from a i m have "d \<noteq> []" "md \<noteq> []" by simp_all
    with a i m assms(2,3) have "build_request req_body = Inr (contents_request
       [JObj [(''text'', JStr fp)],
        JObj [(''inlineData'', JObj [(''data'', JStr (last (split CHR '','' d))),
                                     (''mimeType'', get (get req_body ''image'') ''mimeType'')])],
        JObj [(''inlineData'', JObj [(''data'', JStr (last (split CHR '','' md))),
                                     (''mimeType'', get (get req_body ''mask'') ''mimeType'')])]])"
      by (intro build_inpaint) simp_all
    then show "snd (post_generate gen req_body) =
         [JObj [(''contents'', JArr [JObj [(''parts'', JArr
            [JObj [(''text'', JStr fp)],
             JObj [(''inlineData'', JObj
               [(''data'', JStr (last (split CHR '','' d))),
                (''mimeType'', get (get req_body ''image'') ''mimeType'')])],
             JObj [(''inlineData'', JObj
               [(''data'', JStr (last (split CHR '','' md))),
                (''mimeType'', get (get req_body ''mask'') ''mimeType'')])]])]])]]"
      by (simp add: pg handler_calls contents_request_def)
  }
qed

theorem payload_by_image_presence_witness:
  "validateGenerateRequest text_request = Inr None \<and>
   \<not> truthy (get text_request ''image'') \<and>
   snd (post_generate (returning image_result) text_request) =
     [JStr ''cat. --negative blurry, low quality, watermarks''] \<and>
   validateGenerateRequest image_request = Inr None \<and>
   truthy (get image_request ''image'') \<and> \<not> truthy (get image_request ''mask'') \<and>
   snd (post_generate (returning image_result) image_request) =
     [JObj [(''contents'', JArr [JObj [(''parts'', JArr
        [JObj [(''text'', JStr ''cat. --negative blurry, low quality, watermarks'')],
         JObj [(''inlineData'', JObj
           [(''data'', JStr ''QUJD''), (''mimeType'', JStr ''image/png'')])]])]])]] \<and>
   validateGenerateRequest inpaint_request = Inr None \<and>
   truthy (get inpaint_request ''image'') \<and> truthy (get inpaint_request ''mask'') \<and>
   snd (post_generate (returning image_result) inpaint_request) =
     [JObj [(''contents'', JArr [JObj [(''parts'', JArr
        [JObj [(''text'', JStr ''cat. --negative blurry, low quality, watermarks'')],
         JObj [(''inlineData'', JObj
           [(''data'', JStr ''QUJD''), (''mimeType'', JStr ''image/png'')])],
         JObj [(''inlineData'', JObj
           [(''data'', JStr ''TUFTSw==''), (''mimeType'', JStr ''image/png'')])]])]])]]"
proof -
  let ?fp = "''cat. --negative blurry, low quality, watermarks''"
  let ?gen = "returning image_result"
  have v1: "validateGenerateRequest text_request = Inr None"
    and p1: "get text_request ''prompt'' = JStr ''cat''"
    and f1: "fullPrompt text_request = Inr ?fp"
    and i1: "\<not> truthy (get text_request ''image'')"
    by (simp_all add: validateGenerateRequest_def fullPrompt_def default_negative_def
        text_request_def)
  have v2: "validateGenerateRequest image_request = Inr None"
    and p2: "get image_request ''prompt'' = JStr ''cat''"
    and f2: "fullPrompt image_request = Inr ?fp"
    and i2: "truthy (get image_request ''image'')" "\<not> truthy (get image_request ''mask'')"
    and d2: "get (get image_request ''image'') ''data'' = JStr ''data:image/png;base64,QUJD''"
    and m2: "get (get image_request ''image'') ''mimeType'' = JStr ''image/png''"
    by (simp_all add: validateGenerateRequest_def fullPrompt_def default_negative_def
        image_request_def png_part_def)
  have v3: "validateGenerateRequest inpaint_request = Inr None"
    and p3: "get inpaint_request ''prompt'' = JStr ''cat''"
    and f3: "fullPrompt inpaint_request = Inr ?fp"
    and i3: "truthy (get inpaint_request ''image'')" "truthy (get inpaint_request ''mask'')"
    and d3: "get (get inpaint_request ''image'') ''data'' = JStr ''data:image/png;base64,QUJD''"
      "get (get inpaint_request ''mask'') ''data'' = JStr ''TUFTSw==''"
    and m3: "get (get inpaint_request ''image'') ''mimeType'' = JStr ''image/png''"
      "get (get inpaint_request ''mask'') ''mimeType'' = JStr ''image/png''"
    by (simp_all add: validateGenerateRequest_def fullPrompt_def default_negative_def
        inpaint_request_def png_part_def)
  have s1: "last (split CHR '','' ''data:image/png;base64,QUJD'') = ''QUJD''"
    using last_split_sep [of "CHR '',''" "''QUJD''" "''data:image/png;base64''"] by simp
  have s2: "last (split CHR '','' ''TUFTSw=='') = ''TUFTSw==''"
    using split_no_sep [of "CHR '',''" "''TUFTSw==''"] by simp
  from payload_by_image_presence [OF v1 p1 f1, of ?gen] i1
  have r1: "snd (post_generate ?gen text_request) = [JStr ?fp]"
    by blast
  from payload_by_image_presence [OF v2 p2 f2, of ?gen "''data:image/png;base64,QUJD''"] i2 d2
  have r2: "snd (post_generate ?gen image_request) =
     [JObj [(''contents'', JArr [JObj [(''parts'', JArr
        [JObj [(''text'', JStr ?fp)],
         JObj [(''inlineData'', JObj
           [(''data'', JStr (last (split CHR '','' ''data:image/png;base64,QUJD''))),
            (''mimeType'', get (get image_request ''image'') ''mimeType'')])]])]])]]"
    by blast
  from payload_by_image_presence
    [OF v3 p3 f3, of ?gen "''data:image/png;base64,QUJD''" "''TUFTSw==''"] i3 d3
  have r3: "snd (post_generate ?gen inpaint_request) =
     [JObj [(''contents'', JArr [JObj [(''parts'', JArr
        [JObj [(''text'', JStr ?fp)],
         JObj [(''inlineData'', JObj
           [(''data'', JStr (last (split CHR '','' ''data:image/png;base64,QUJD''))),
            (''mimeType'', get (get inpaint_request ''image'') ''mimeType'')])],
         JObj [(''inlineData'', JObj
           [(''data'', JStr (last (split CHR '','' ''TUFTSw==''))),
            (''mimeType'', get (get inpaint_request ''mask'') ''mimeType'')])]])]])]]"
    by blast
  from r2 have r2': "snd (post_generate ?gen image_request) =
     [JObj [(''contents'', JArr [JObj [(''parts'', JArr
        [JObj [(''text'', JStr ?fp)],
         JObj [(''inlineData'', JObj
           [(''data'', JStr ''QUJD''), (''mimeType'', JStr ''image/png'')])]])]])]]"
    by (simp only: s1 m2)
  from r3 have r3': "snd (post_generate ?gen inpaint_request) =
     [JObj [(''contents'', JArr [JObj [(''parts'', JArr
        [JObj [(''text'', JStr ?fp)],
         JObj [(''inlineData'', JObj
           [(''data'', JStr ''QUJD''), (''mimeType'', JStr ''image/png'')])],
         JObj [(''inlineData'', JObj
           [(''data'', JStr ''TUFTSw==''), (''mimeType'', JStr ''image/png'')])]])]])]]"
    by (simp only: s1 s2 m3)
  from v1 i1 r1 v2 i2 r2' v3 i3 r3' show ?thesis by blast
qed

section \<open>Data-URL framing\<close>

text \<open>
  C3. Take a validated request with a text prompt and an image whose \<open>data\<close> is the text
  \<open>d\<close>. When \<open>d\<close> carries a data-URL prefix, so that it is a prefix, a comma and a rest
  without comma, the image part of the one request made to the upstream model carries
  exactly that rest, the substring after the last comma. When \<open>d\<close> lacks the prefix, so
  that it is base64 text (or any text without comma), the part carries \<open>d\<close> unchanged.
  The same holds of the \<open>data\<close> of a mask, forwarded in the third part.
\<close>

theorem data_url_prefix_stripped:
  assumes "validateGenerateRequest req_body = Inr None"
    and "get req_body ''prompt'' = JStr p"
    and "fullPrompt req_body = Inr fp"
    and "truthy (get req_body ''image'')"
    and "get (get req_body ''image'') ''data'' = JStr d"
    and "(d = prefix @ '','' @ rest \<and> CHR '','' \<notin> set rest) \<or>
         (base64_text d \<and> rest = d) \<or> (CHR '','' \<notin> set d \<and> rest = d)"
  shows
   "(\<not> truthy (get req_body ''mask'') \<longrightarrow>
       snd (post_generate gen req_body) =
         [JObj [(''contents'', JArr [JObj [(''parts'', JArr
            [JObj [(''text'', JStr fp)],
             JObj [(''inlineData'', JObj
               [(''data'', JStr rest),
                (''mimeType'', get (get req_body ''image'') ''mimeType'')])]])]])]]) \<and>
    (truthy (get req_body ''mask'') \<and> get (get req_body ''mask'') ''data'' = JStr md \<and>
     ((md = mprefix @ '','' @ mrest \<and> CHR '','' \<notin> set mrest) \<or>
      (base64_text md \<and> mrest = md) \<or> (CHR '','' \<notin> set md \<and> mrest = md)) \<longrightarrow>
       snd (post_generate gen req_body) =
         [JObj [(''contents'', JArr [JObj [(''parts'', JArr
            [JObj [(''text'', JStr fp)],
             JObj [(''inlineData'', JObj
               [(''data'', JStr rest),
                (''mimeType'', get (get req_body ''image'') ''mimeType'')])],
             JObj [(''inlineData'', JObj
               [(''data'', JStr mrest),
                (''mimeType'', get (get req_body ''mask'') ''mimeType'')])]])]])]])"
proof (intro conjI impI)
  note pg = post_generate_validated [OF assms(1)]
  from assms(6) have rest: "last (split CHR '','' d) = rest"
    by (rule forwarded_data)
  from assms(1,4) have i: "truthy (get (get req_body ''image'') ''data'')"
      "truthy (get (get req_body ''image'') ''mimeType'')"
    using validated_image by blast+
  with assms(5) have d: "d \<noteq> []" by simp
  {
    assume "\<not> truthy (get req_body ''mask'')"
    with assms(2-5) d i(2) have "build_request req_body = Inr (contents_request
       [JObj [(''text'', JStr fp)],
        JObj [(''inlineData'', JObj [(''data'', JStr (last (split CHR '','' d))),
                                     (''mimeType'', get (get req_body ''image'') ''mimeType'')])]])"
      by (rule build_image)
    then show "snd (post_generate gen req_body) =
         [JObj [(''contents'', JArr [JObj [(''parts'', JArr
            [JObj [(''text'', JStr fp)],
             JObj [(''inlineData'', JObj
               [(''data'', JStr rest),
                (''mimeType'', get (get req_body ''image'') ''mimeType'')])]])]])]]"
      by (simp add: pg handler_calls contents_request_def rest)
  next
    assume a: "truthy (get req_body ''mask'') \<and> get (get req_body ''mask'') ''data'' = JStr md \<and>
     ((md = mprefix @ '','' @ mrest \<and> CHR '','' \<notin> set mrest) \<or>
      (base64_text md \<and> mrest = md) \<or> (CHR '','' \<notin> set md \<and> mrest = md))"
    then have mrest: "last (split CHR '','' md) = mrest"
      by (intro forwarded_data) blast
    from a assms(1) have m: "truthy (get (get req_body ''mask'') ''data'')"
        "truthy (get (get req_body ''mask'') ''mimeType'')"
      using validated_mask by blast+
    with a have md: "md \<noteq> []" by simp
    from a have tm: "truthy (get req_body ''mask'')"
      and dm: "get (get req_body ''mask'') ''data'' = JStr md"
      by blast+
    from assms(2-5) d i(2) tm dm md m(2) have "build_request req_body = Inr (contents_request
       [JObj [(''text'', JStr fp)],
        JObj [(''inlineData'', JObj [(''data'', JStr (last (split CHR '','' d))),
                                     (''mimeType'', get (get req_body ''image'') ''mimeType'')])],
        JObj [(''inlineData'', JObj [(''data'', JStr (last (split CHR '','' md))),
                                     (''mimeType'', get (get req_body ''mask'') ''mimeType'')])]])"
      by (rule build_inpaint)
    then show "snd (post_generate gen req_body) =
         [JObj [(''contents'', JArr [JObj [(''parts'', JArr
            [JObj [(''text'', JStr fp)],
             JObj [(''inlineData'', JObj
               [(''data'', JStr rest),
                (''mimeType'', get (get req_body ''image'') ''mimeType'')])],
             JObj [(''inlineData'', JObj
               [(''data'', JStr mrest),
                (''mimeType'', get (get req_body ''mask'') ''mimeType'')])]])]])]]"
      by (simp add: pg handler_calls contents_request_def rest mrest)
  }
qed

theorem data_url_prefix_stripped_witness:
  "validateGenerateRequest image_request = Inr None \<and>
   get (get image_request ''image'') ''data'' = JStr (''data:image/png;base64'' @ '','' @ ''QUJD'') \<and>
   CHR '','' \<notin> set ''QUJD'' \<and>
   snd (post_generate (returning image_result) image_request) =
     [JObj [(''contents'', JArr [JObj [(''parts'', JArr
        [JObj [(''text'', JStr ''cat. --negative blurry, low quality, watermarks'')],
         JObj [(''inlineData'', JObj
           [(''data'', JStr ''QUJD''), (''mimeType'', JStr ''image/png'')])]])]])]] \<and>
   validateGenerateRequest inpaint_request = Inr None \<and>
   get (get inpaint_request ''mask'') ''data'' = JStr ''TUFTSw=='' \<and>
   base64_text ''TUFTSw=='' \<and>
   snd (post_generate (returning image_result) inpaint_request) =
     [JObj [(''contents'', JArr [JObj [(''parts'', JArr
        [JObj [(''text'', JStr ''cat. --negative blurry, low quality, watermarks'')],
         JObj [(''inlineData'', JObj
           [(''data'', JStr ''QUJD''), (''mimeType'', JStr ''image/png'')])],
         JObj [(''inlineData'', JObj
           [(''data'', JStr ''TUFTSw==''), (''mimeType'', JStr ''image/png'')])]])]])]]"
proof -
  let ?fp = "''cat. --negative blurry, low quality, watermarks''"
  let ?gen = "returning image_result"
  let ?url = "''data:image/png;base64'' @ '','' @ ''QUJD''"
  have c: "CHR '','' \<notin> set ''QUJD''" by simp
  have b: "base64_text ''TUFTSw==''" by (simp add: base64_text_def base64_char_def)
  have v2: "validateGenerateRequest image_request = Inr None"
    and p2: "get image_request ''prompt'' = JStr ''cat''"
    and f2: "fullPrompt image_request = Inr ?fp"
    and i2: "truthy (get image_request ''image'')"
    and k2: "\<not> truthy (get image_request ''mask'')"
    and d2: "get (get image_request ''image'') ''data'' = JStr ?url"
    and m2: "get (get image_request ''image'') ''mimeType'' = JStr ''image/png''"
    by (simp_all add: validateGenerateRequest_def fullPrompt_def default_negative_def
        image_request_def png_part_def)
  have v3: "validateGenerateRequest inpaint_request = Inr None"
    and p3: "get inpaint_request ''prompt'' = JStr ''cat''"
    and f3: "fullPrompt inpaint_request = Inr ?fp"
    and i3: "truthy (get inpaint_request ''image'')"
    and k3: "truthy (get inpaint_request ''mask'')"
    and d3: "get (get inpaint_request ''image'') ''data'' = JStr ?url"
    and e3: "get (get inpaint_request ''mask'') ''data'' = JStr ''TUFTSw==''"
    and m3: "get (get inpaint_request ''image'') ''mimeType'' = JStr ''image/png''"
      "get (get inpaint_request ''mask'') ''mimeType'' = JStr ''image/png''"
    by (simp_all add: validateGenerateRequest_def fullPrompt_def default_negative_def
        inpaint_request_def png_part_def)
  from c have h: "(?url = ''data:image/png;base64'' @ '','' @ ''QUJD'' \<and> CHR '','' \<notin> set ''QUJD'') \<or>
       (base64_text ?url \<and> ''QUJD'' = ?url) \<or> (CHR '','' \<notin> set ?url \<and> ''QUJD'' = ?url)"
    by blast
  from b have hm: "(''TUFTSw=='' = [] @ '','' @ ''TUFTSw=='' \<and> CHR '','' \<notin> set ''TUFTSw=='') \<or>
       (base64_text ''TUFTSw=='' \<and> ''TUFTSw=='' = ''TUFTSw=='') \<or>
       (CHR '','' \<notin> set ''TUFTSw=='' \<and> ''TUFTSw=='' = ''TUFTSw=='')"
    by blast
  from data_url_prefix_stripped [where gen = ?gen, OF v2 p2 f2 i2 d2 h] k2
  have "snd (post_generate ?gen image_request) =
     [JObj [(''contents'', JArr [JObj [(''parts'', JArr
        [JObj [(''text'', JStr ?fp)],
         JObj [(''inlineData'', JObj
           [(''data'', JStr ''QUJD''),
            (''mimeType'', get (get image_request ''image'') ''mimeType'')])]])]])]]"
    by blast
  then have r2: "snd (post_generate ?gen image_request) =
     [JObj [(''contents'', JArr [JObj [(''parts'', JArr
        [JObj [(''text'', JStr ?fp)],
         JObj [(''inlineData'', JObj
           [(''data'', JStr ''QUJD''), (''mimeType'', JStr ''image/png'')])]])]])]]"
    by (simp only: m2)
  from data_url_prefix_stripped
    [where gen = ?gen and md = "''TUFTSw==''" and mprefix = "[]" and mrest = "''TUFTSw==''",
     OF v3 p3 f3 i3 d3 h] k3 e3 hm
  have "snd (post_generate ?gen inpaint_request) =
     [JObj [(''contents'', JArr [JObj [(''parts'', JArr
        [JObj [(''text'', JStr ?fp)],
         JObj [(''inlineData'', JObj
           [(''data'', JStr ''QUJD''),
            (''mimeType'', get (get inpaint_request ''image'') ''mimeType'')])],
         JObj [(''inlineData'', JObj
           [(''data'', JStr ''TUFTSw==''),
            (''mimeType'', get (get inpaint_request ''mask'') ''mimeType'')])]])]])]]"
    by blast
  then have r3: "snd (post_generate ?gen inpaint_request) =
     [JObj [(''contents'', JArr [JObj [(''parts'', JArr
        [JObj [(''text'', JStr ?fp)],
         JObj [(''inlineData'', JObj
           [(''data'', JStr ''QUJD''), (''mimeType'', JStr ''image/png'')])],
         JObj [(''inlineData'', JObj
           [(''data'', JStr ''TUFTSw==''), (''mimeType'', JStr ''image/png'')])]])]])]]"
    by (simp only: m3)
  from v2 d2 c r2 v3 e3 b r3 show ?thesis by blast
qed

section \<open>A mask without an image\<close>

text \<open>
  C9 (as amended). A request with a mask and no image is rejected, with status 400 and no
  upstream call, when its prompt is missing or its mask lacks \<open>data\<close> or \<open>mimeType\<close>, and
  not otherwise: with a prompt and a complete mask it passes validation. It is then
  processed as text-to-image and the mask is ignored: whatever request reaches the
  upstream model is the plain normalized prompt, and with a text prompt exactly one
  such request is made.
\<close>

theorem mask_without_image_processed:
  assumes "truthy (get req_body ''mask'')" and "\<not> truthy (get req_body ''image'')"
  shows
   "(\<not> truthy (get req_body ''prompt'') \<or>
     \<not> truthy (get (get req_body ''mask'') ''data'') \<or>
     \<not> truthy (get (get req_body ''mask'') ''mimeType'') \<longrightarrow>
       (\<exists>err details. post_generate gen req_body =
          (Responded \<lparr>status = 400, body = JObj
             [(''error'', JStr err), (''details'', JStr details)]\<rparr>, []))) \<and>
    (truthy (get req_body ''prompt'') \<and>
     truthy (get (get req_body ''mask'') ''data'') \<and>
     truthy (get (get req_body ''mask'') ''mimeType'') \<longrightarrow>
       validateGenerateRequest req_body = Inr None) \<and>
    (\<forall>rq \<in> set (snd (post_generate gen req_body)).
       \<exists>fp. fullPrompt req_body = Inr fp \<and> rq = JStr fp) \<and>
    (truthy (get (get req_body ''mask'') ''data'') \<and>
     truthy (get (get req_body ''mask'') ''mimeType'') \<and>
     get req_body ''prompt'' = JStr p \<and> p \<noteq> [] \<and> fullPrompt req_body = Inr fp \<longrightarrow>
       snd (post_generate gen req_body) = [JStr fp])"
proof (intro conjI impI)
  from assms(1) have body: "\<not> nullish req_body" by (rule truthy_get_not_nullish)
  {
    assume bad: "\<not> truthy (get req_body ''prompt'') \<or>
      \<not> truthy (get (get req_body ''mask'') ''data'') \<or>
      \<not> truthy (get (get req_body ''mask'') ''mimeType'')"
    have "\<exists>err details. validateGenerateRequest req_body = Inr (Some (bad_request err details))"
    proof (cases "truthy (get req_body ''prompt'')")
      case False
      with body have "validateGenerateRequest req_body =
          Inr (Some (bad_request ''Missing required field''
            (''The '' @ quoted ''prompt'' @ '' field is required'')))"
        by (simp add: validateGenerateRequest_def)
      then show ?thesis by blast
    next
      case True
      with bad assms body have "validateGenerateRequest req_body =
          Inr (Some (bad_request ''Invalid mask data''
            (''When providing a mask, both '' @ quoted ''data'' @ '' and '' @ quoted ''mimeType''
               @ '' are required'')))"
        unfolding validateGenerateRequest_def by (simp only: simp_thms if_True if_False)
      then show ?thesis by blast
    qed
    then obtain err details
      where "validateGenerateRequest req_body = Inr (Some (bad_request err details))"
      by blast
    then have "post_generate gen req_body = (Responded (bad_request err details), [])"
      by (rule post_generate_rejected)
    then show "\<exists>err details. post_generate gen req_body =
          (Responded \<lparr>status = 400, body = JObj
             [(''error'', JStr err), (''details'', JStr details)]\<rparr>, [])"
      unfolding bad_request_def by blast
  next
    assume "truthy (get req_body ''prompt'') \<and>
      truthy (get (get req_body ''mask'') ''data'') \<and>
      truthy (get (get req_body ''mask'') ''mimeType'')"
    with assms body show "validateGenerateRequest req_body = Inr None"
      unfolding validateGenerateRequest_def by (simp only: simp_thms if_True if_False)
  next
    from handler_calls_text [OF assms(2), of gen] post_generate_calls [of gen req_body]
    show "\<forall>rq \<in> set (snd (post_generate gen req_body)).
       \<exists>fp. fullPrompt req_body = Inr fp \<and> rq = JStr fp"
      by auto
  next
    assume a: "truthy (get (get req_body ''mask'') ''data'') \<and>
      truthy (get (get req_body ''mask'') ''mimeType'') \<and>
      get req_body ''prompt'' = JStr p \<and> p \<noteq> [] \<and> fullPrompt req_body = Inr fp"
    then have "truthy (get req_body ''prompt'')" by simp
    with a assms body have v: "validateGenerateRequest req_body = Inr None"
      unfolding validateGenerateRequest_def by (simp only: simp_thms if_True if_False)
    from a assms(2) have "build_request req_body = Inr (JStr fp)"
      by (intro build_text) blast+
    then have "snd (generate_handler gen req_body) = [JStr fp]"
      by (rule handler_calls)
    with v show "snd (post_generate gen req_body) = [JStr fp]"
      by (simp add: post_generate_validated)
  }
qed

theorem mask_without_image_processed_witness:
  "truthy (get mask_only_request ''mask'') \<and> \<not> truthy (get mask_only_request ''image'') \<and>
   validateGenerateRequest mask_only_request = Inr None \<and>
   snd (post_generate (returning refusal_result) mask_only_request) =
     [JStr ''cat. --negative blurry, low quality, watermarks''] \<and>
   truthy (get mask_without_prompt_request ''mask'') \<and>
   \<not> truthy (get mask_without_prompt_request ''image'') \<and>
   \<not> truthy (get mask_without_prompt_request ''prompt'') \<and>
   (\<exists>err details. post_generate (returning refusal_result) mask_without_prompt_request =
      (Responded \<lparr>status = 400, body = JObj
         [(''error'', JStr err), (''details'', JStr details)]\<rparr>, []))"
proof -
  let ?gen = "returning refusal_result"
  have m1: "truthy (get mask_only_request ''mask'')"
    and i1: "\<not> truthy (get mask_only_request ''image'')"
    and p1: "get mask_only_request ''prompt'' = JStr ''cat''" "truthy (get mask_only_request ''prompt'')"
      "''cat'' \<noteq> []"
    and c1: "truthy (get (get mask_only_request ''mask'') ''data'')"
      "truthy (get (get mask_only_request ''mask'') ''mimeType'')"
    and f1: "fullPrompt mask_only_request =
      Inr ''cat. --negative blurry, low quality, watermarks''"
    by (simp_all add: fullPrompt_def default_negative_def mask_only_request_def png_part_def)
  have m2: "truthy (get mask_without_prompt_request ''mask'')"
    and i2: "\<not> truthy (get mask_without_prompt_request ''image'')"
    and p2: "\<not> truthy (get mask_without_prompt_request ''prompt'')"
    by (simp_all add: mask_without_prompt_request_def png_part_def)
  note inst1 = mask_without_image_processed
    [OF m1 i1, of ?gen "''cat''" "''cat. --negative blurry, low quality, watermarks''"]
  note inst2 = mask_without_image_processed [OF m2 i2, of ?gen]
  from inst1 p1 c1 have v1: "validateGenerateRequest mask_only_request = Inr None"
    by blast
  from inst1 p1 c1 f1 have r1: "snd (post_generate ?gen mask_only_request) =
     [JStr ''cat. --negative blurry, low quality, watermarks'']"
    by blast
  from inst2 p2 have r2: "\<exists>err details. post_generate ?gen mask_without_prompt_request =
      (Responded \<lparr>status = 400, body = JObj
         [(''error'', JStr err), (''details'', JStr details)]\<rparr>, [])"
    by blast
  from m1 i1 v1 r1 m2 i2 p2 r2 show ?thesis by blast
qed

text \<open>
  C9 as stated fails: the request with prompt \<open>cat\<close>, a complete mask and no image passes
  validation, reaches the upstream model as a text-to-image request and is answered with
  the generated image.
\<close>

theorem mask_without_image_counterexample:
  "truthy (get mask_only_request ''mask'') \<and>
   get mask_only_request ''image'' = JUndefined \<and>
   validateGenerateRequest mask_only_request = Inr None \<and>
   post_generate (returning image_result) mask_only_request =
     (Responded \<lparr>status = 200, body = JObj
        [(''image'', JStr ''R0lG''), (''finishReason'', JStr ''STOP'')]\<rparr>,
      [JStr ''cat. --negative blurry, low quality, watermarks''])"
  by (simp add: mask_only_request_def png_part_def validateGenerateRequest_def
      post_generate_def generate_handler_def build_request_def fullPrompt_def
      default_negative_def prompt_prefix_def returning_def extract_result_def
      image_result_def result_of_def candidate_def read_prop_def read_index0_def
      first_candidate_parts_def)

section \<open>The answer to a returned result\<close>

text \<open>
  C4 (as amended). When the upstream call returns and the parts list of the first
  candidate of the response holds a part with inline image data, the parts before the
  first such part being values other than \<open>null\<close>, the answer has status 200 and its body
  has the field \<open>image\<close>, the \<open>data\<close> of the inline image of that first such part, and
  the field \<open>finishReason\<close>, the \<open>finishReason\<close> of the first candidate, both as they
  came. The upstream model was called once.
\<close>

theorem first_inline_image_returned:
  assumes "validateGenerateRequest req_body = Inr None"
    and "build_request req_body = Inr request"
    and "gen request = Returns result"
    and "first_candidate_parts (get (get result ''response'') ''candidates'')
           = JArr (pre @ p # post)"
    and "\<forall>q \<in> set pre. \<not> nullish q \<and> \<not> truthy (get q ''inlineData'')"
    and "truthy (get p ''inlineData'')"
  shows "post_generate gen req_body =
     (Responded \<lparr>status = 200, body = JObj
        [(''image'', get (get p ''inlineData'') ''data''),
         (''finishReason'',
            get (index0 (get (get result ''response'') ''candidates'')) ''finishReason'')]\<rparr>,
      [request])"
proof -
  from assms(4-6) have "extract_result result = Inr \<lparr>status = 200, body = JObj
     [(''image'', get (get p ''inlineData'') ''data''),
      (''finishReason'',
         get (index0 (get (get result ''response'') ''candidates'')) ''finishReason'')]\<rparr>"
    by (rule extract_image)
  with assms(1-3) show ?thesis
    by (simp add: post_generate_validated handler_returned)
qed

theorem first_inline_image_returned_witness:
  "validateGenerateRequest text_request = Inr None \<and>
   first_candidate_parts (get (get image_result ''response'') ''candidates'') =
     JArr ([JObj [(''text'', JStr ''Here you go'')]] @ JObj [(''inlineData'', png_part ''R0lG'')]
           # [JObj [(''inlineData'', png_part ''SkZJ'')]]) \<and>
   post_generate (returning image_result) text_request =
     (Responded \<lparr>status = 200, body = JObj
        [(''image'', JStr ''R0lG''), (''finishReason'', JStr ''STOP'')]\<rparr>,
      [JStr ''cat. --negative blurry, low quality, watermarks''])"
proof -
  let ?request = "JStr ''cat. --negative blurry, low quality, watermarks''"
  let ?pre = "[JObj [(''text'', JStr ''Here you go'')]]"
  let ?p = "JObj [(''inlineData'', png_part ''R0lG'')]"
  let ?post = "[JObj [(''inlineData'', png_part ''SkZJ'')]]"
  have v: "validateGenerateRequest text_request = Inr None"
    by (simp add: validateGenerateRequest_def text_request_def)
  have b: "build_request text_request = Inr ?request"
    by (simp add: build_request_def fullPrompt_def prompt_prefix_def default_negative_def
        text_request_def)
  have g: "returning image_result ?request = Returns image_result"
    by (simp add: returning_def)
  have f: "first_candidate_parts (get (get image_result ''response'') ''candidates'')
      = JArr (?pre @ ?p # ?post)"
    by (simp add: first_candidate_parts_def image_result_def result_of_def candidate_def)
  have q: "\<forall>q \<in> set ?pre. \<not> nullish q \<and> \<not> truthy (get q ''inlineData'')"
    by simp
  have t: "truthy (get ?p ''inlineData'')"
    by (simp add: png_part_def)
  have d: "get (get ?p ''inlineData'') ''data'' = JStr ''R0lG''"
    by (simp add: png_part_def)
  have r: "get (index0 (get (get image_result ''response'') ''candidates'')) ''finishReason''
      = JStr ''STOP''"
    by (simp add: image_result_def result_of_def candidate_def)
  from first_inline_image_returned [where gen = "returning image_result", OF v b g f q t]
  have "post_generate (returning image_result) text_request =
     (Responded \<lparr>status = 200, body = JObj
        [(''image'', JStr ''R0lG''), (''finishReason'', JStr ''STOP'')]\<rparr>, [?request])"
    by (simp only: d r)
  with v f show ?thesis by blast
qed

text \<open>
  C4 as stated fails when the only inline image of the response is in a later candidate:
  the reply below has two candidates, the first with a text part only, the second with an
  inline image, and the answer is the error of status 500, without \<open>image\<close> field.
\<close>

theorem later_candidate_image_counterexample:
  "second_candidate_result = result_of
     [candidate [JObj [(''text'', JStr ''Variant one'')]] ''STOP'',
      candidate [JObj [(''inlineData'', png_part ''R0lG'')]] ''STOP''] \<and>
   truthy (get (JObj [(''inlineData'', png_part ''R0lG'')]) ''inlineData'') \<and>
   post_generate (returning second_candidate_result) text_request =
     (Responded \<lparr>status = 500, body = JObj
        [(''error'', JStr ''Image Generation Failed.''),
         (''details'', JStr ''Variant one''),
         (''checkLogs'', JStr ''Check server logs for full traceback.'')]\<rparr>,
      [JStr ''cat. --negative blurry, low quality, watermarks''])"
  by (simp add: text_request_def png_part_def validateGenerateRequest_def
      post_generate_def generate_handler_def build_request_def fullPrompt_def
      default_negative_def prompt_prefix_def returning_def extract_result_def
      second_candidate_result_def result_of_def candidate_def read_prop_def
      first_candidate_parts_def error_response_def Error_def)

text \<open>
  C5 (as amended). When the upstream call returns a response whose first candidate has
  no parts list, or a parts list none of whose parts (values other than \<open>null\<close>) carries
  inline image data, the answer is the error of status 500, after one upstream call.
  Its \<open>details\<close> is the \<open>text\<close> of the first part of the first candidate when that text
  is a non-empty string, and the fixed fallback message when that text is absent or empty.
\<close>

theorem no_image_error_detail:
  assumes "validateGenerateRequest req_body = Inr None"
    and "build_request req_body = Inr request"
    and "gen request = Returns result"
    and "\<not> nullish (get result ''response'')"
    and "first_candidate_parts (get (get result ''response'') ''candidates'') = parts"
    and "nullish parts \<or>
       (\<exists>ps. parts = JArr ps \<and> (\<forall>q \<in> set ps. \<not> nullish q \<and> \<not> truthy (get q ''inlineData'')))"
  shows
   "(get (index0 parts) ''text'' = JStr t \<and> t \<noteq> [] \<longrightarrow>
       post_generate gen req_body =
         (Responded \<lparr>status = 500, body = JObj
            [(''error'', JStr ''Image Generation Failed.''),
             (''details'', JStr t),
             (''checkLogs'', JStr ''Check server logs for full traceback.'')]\<rparr>,
          [request])) \<and>
    (\<not> truthy (get (index0 parts) ''text'') \<longrightarrow>
       post_generate gen req_body =
         (Responded \<lparr>status = 500, body = JObj
            [(''error'', JStr ''Image Generation Failed.''),
             (''details'', JStr ''No image data returned from API and no error message found.''),
             (''checkLogs'', JStr ''Check server logs for full traceback.'')]\<rparr>,
          [request]))"
proof -
  note ex = extract_no_image [OF assms(4-6)]
  note pg = post_generate_validated [OF assms(1)] handler_returned [where gen = gen, OF assms(2,3)]
  show ?thesis
  proof (intro conjI impI)
    assume "get (index0 parts) ''text'' = JStr t \<and> t \<noteq> []"
    with ex have "extract_result result = Inl (Error t)" by simp
    then show "post_generate gen req_body =
         (Responded \<lparr>status = 500, body = JObj
            [(''error'', JStr ''Image Generation Failed.''),
             (''details'', JStr t),
             (''checkLogs'', JStr ''Check server logs for full traceback.'')]\<rparr>,
          [request])"
      by (simp add: pg error_response_def Error_def)
  next
    assume "\<not> truthy (get (index0 parts) ''text'')"
    with ex have "extract_result result = Inl (Error no_image_message)" by simp
    then show "post_generate gen req_body =
         (Responded \<lparr>status = 500, body = JObj
            [(''error'', JStr ''Image Generation Failed.''),
             (''details'', JStr ''No image data returned from API and no error message found.''),
             (''checkLogs'', JStr ''Check server logs for full traceback.'')]\<rparr>,
          [request])"
      by (simp add: pg error_response_def Error_def no_image_message_def)
  qed
qed

theorem no_image_error_detail_witness:
  "validateGenerateRequest text_request = Inr None \<and>
   first_candidate_parts (get (get refusal_result ''response'') ''candidates'')
     = JArr [JObj [(''text'', JStr ''Cannot comply'')]] \<and>
   post_generate (returning refusal_result) text_request =
     (Responded \<lparr>status = 500, body = JObj
        [(''error'', JStr ''Image Generation Failed.''),
         (''details'', JStr ''Cannot comply''),
         (''checkLogs'', JStr ''Check server logs for full traceback.'')]\<rparr>,
      [JStr ''cat. --negative blurry, low quality, watermarks'']) \<and>
   first_candidate_parts (get (get (result_of []) ''response'') ''candidates'') = JUndefined \<and>
   post_generate (returning (result_of [])) text_request =
     (Responded \<lparr>status = 500, body = JObj
        [(''error'', JStr ''Image Generation Failed.''),
         (''details'', JStr ''No image data returned from API and no error message found.''),
         (''checkLogs'', JStr ''Check server logs for full traceback.'')]\<rparr>,
      [JStr ''cat. --negative blurry, low quality, watermarks''])"
proof -
  let ?request = "JStr ''cat. --negative blurry, low quality, watermarks''"
  let ?ps = "[JObj [(''text'', JStr ''Cannot comply'')]]"
  have v: "validateGenerateRequest text_request = Inr None"
    by (simp add: validateGenerateRequest_def text_request_def)
  have b: "build_request text_request = Inr ?request"
    by (simp add: build_request_def fullPrompt_def prompt_prefix_def default_negative_def
        text_request_def)
  have g1: "returning refusal_result ?request = Returns refusal_result"
    and g2: "returning (result_of []) ?request = Returns (result_of [])"
    by (simp_all add: returning_def)
  have n1: "\<not> nullish (get refusal_result ''response'')"
    and n2: "\<not> nullish (get (result_of []) ''response'')"
    by (simp_all add: refusal_result_def result_of_def)
  have f1: "first_candidate_parts (get (get refusal_result ''response'') ''candidates'') = JArr ?ps"
    by (simp add: first_candidate_parts_def refusal_result_def result_of_def candidate_def)
  have f2: "first_candidate_parts (get (get (result_of []) ''response'') ''candidates'')
      = JUndefined"
    by (simp add: first_candidate_parts_def result_of_def)
  have c1: "nullish (JArr ?ps) \<or>
       (\<exists>ps. JArr ?ps = JArr ps \<and> (\<forall>q \<in> set ps. \<not> nullish q \<and> \<not> truthy (get q ''inlineData'')))"
    by simp
  have c2: "nullish JUndefined \<or>
       (\<exists>ps. JUndefined = JArr ps \<and> (\<forall>q \<in> set ps. \<not> nullish q \<and> \<not> truthy (get q ''inlineData'')))"
    by simp
  have t1: "get (index0 (JArr ?ps)) ''text'' = JStr ''Cannot comply'' \<and> ''Cannot comply'' \<noteq> []"
    by simp
  have t2: "\<not> truthy (get (index0 JUndefined) ''text'')"
    by simp
  from no_image_error_detail
    [where gen = "returning refusal_result" and t = "''Cannot comply''", OF v b g1 n1 f1 c1] t1
  have r1: "post_generate (returning refusal_result) text_request =
     (Responded \<lparr>status = 500, body = JObj
        [(''error'', JStr ''Image Generation Failed.''),
         (''details'', JStr ''Cannot comply''),
         (''checkLogs'', JStr ''Check server logs for full traceback.'')]\<rparr>, [?request])"
    by blast
  from no_image_error_detail [where gen = "returning (result_of [])", OF v b g2 n2 f2 c2] t2
  have r2: "post_generate (returning (result_of [])) text_request =
     (Responded \<lparr>status = 500, body = JObj
        [(''error'', JStr ''Image Generation Failed.''),
         (''details'', JStr ''No image data returned from API and no error message found.''),
         (''checkLogs'', JStr ''Check server logs for full traceback.'')]\<rparr>, [?request])"
    by blast
  from v f1 r1 f2 r2 show ?thesis by blast
qed

text \<open>
  C5 as stated fails when the text of the first part is the empty string: that text
  exists, and the \<open>details\<close> of the answer is the fallback message, not the empty text.
\<close>

theorem empty_text_counterexample:
  "get (index0 (first_candidate_parts (get (get empty_text_result ''response'') ''candidates'')))
     ''text'' = JStr [] \<and>
   post_generate (returning empty_text_result) text_request =
     (Responded \<lparr>status = 500, body = JObj
        [(''error'', JStr ''Image Generation Failed.''),
         (''details'', JStr ''No image data returned from API and no error message found.''),
         (''checkLogs'', JStr ''Check server logs for full traceback.'')]\<rparr>,
      [JStr ''cat. --negative blurry, low quality, watermarks'']) \<and>
   post_generate (returning empty_text_result) text_request \<noteq>
     (Responded \<lparr>status = 500, body = JObj
        [(''error'', JStr ''Image Generation Failed.''),
         (''details'', JStr []),
         (''checkLogs'', JStr ''Check server logs for full traceback.'')]\<rparr>,
      [JStr ''cat. --negative blurry, low quality, watermarks''])"
  by (simp add: text_request_def validateGenerateRequest_def
      post_generate_def generate_handler_def build_request_def fullPrompt_def
      default_negative_def prompt_prefix_def returning_def extract_result_def
      empty_text_result_def result_of_def candidate_def read_prop_def
      first_candidate_parts_def error_response_def Error_def no_image_message_def)

end
